theory Spec2Isabelle
  imports Complex_Main
begin

section \<open>Strings\<close>

text \<open>
  A Python \<open>str\<close> is a sequence of Unicode code points; it is modelled as the
  list of those code points, so that \<open>length\<close>, \<open>split\<close> and the regular
  expressions count what Python counts.
\<close>

type_synonym pystr = "nat list"

definition ascii :: "string \<Rightarrow> pystr" where
  "ascii s = map of_char s"

section \<open>Character classes of the Python runtime\<close>

text \<open>
  \<open>is_space\<close> is \<open>str.isspace\<close> on one code point, which is also the class
  \<open>\s\<close> of the \<open>re\<close> module on \<open>str\<close> patterns.
\<close>

definition is_space :: "nat \<Rightarrow> bool" where
  "is_space c \<longleftrightarrow>
     (9 \<le> c \<and> c \<le> 13) \<or> (28 \<le> c \<and> c \<le> 32) \<or> c = 133 \<or> c = 160 \<or> c = 5760 \<or>
     (8192 \<le> c \<and> c \<le> 8202) \<or> c = 8232 \<or> c = 8233 \<or> c = 8239 \<or> c = 8287 \<or> c = 12288"

text \<open>
  The decimal digits (general category Nd), as runs \<open>(first code point, length)\<close>;
  inside a run the digit values cycle through 0 to 9. The table is that of Unicode 14.0,
  the database of CPython 3.11. \<open>decimal_value\<close> is \<open>unicodedata.decimal\<close>;
  \<open>is_digit\<close> is the class \<open>\d\<close> of \<open>re\<close> on \<open>str\<close> patterns.
\<close>

definition decimal_runs :: "(nat \<times> nat) list" where
  "decimal_runs =
     [(48, 10), (1632, 10), (1776, 10), (1984, 10), (2406, 10), (2534, 10), (2662, 10),
      (2790, 10), (2918, 10), (3046, 10), (3174, 10), (3302, 10), (3430, 10), (3558, 10),
      (3664, 10), (3792, 10), (3872, 10), (4160, 10), (4240, 10), (6112, 10), (6160, 10),
      (6470, 10), (6608, 10), (6784, 10), (6800, 10), (6992, 10), (7088, 10), (7232, 10),
      (7248, 10), (42528, 10), (43216, 10), (43264, 10), (43472, 10), (43504, 10),
      (43600, 10), (44016, 10), (65296, 10), (66720, 10), (68912, 10), (69734, 10),
      (69872, 10), (69942, 10), (70096, 10), (70384, 10), (70736, 10), (70864, 10),
      (71248, 10), (71360, 10), (71472, 10), (71904, 10), (72016, 10), (72784, 10),
      (73040, 10), (73120, 10), (92768, 10), (92864, 10), (93008, 10), (120782, 50),
      (123200, 10), (123632, 10), (125264, 10), (130032, 10)]"

definition decimal_value :: "nat \<Rightarrow> nat option" where
  "decimal_value c =
     (case find (\<lambda>(s, l). s \<le> c \<and> c < s + l) decimal_runs of
        None \<Rightarrow> None
      | Some (s, l) \<Rightarrow> Some ((c - s) mod 10))"

definition is_digit :: "nat \<Rightarrow> bool" where
  "is_digit c \<longleftrightarrow> decimal_value c \<noteq> None"

text \<open>Python's \<open>s.startswith(p)\<close> and \<open>p in s\<close> on strings.\<close>

fun startswith :: "pystr \<Rightarrow> pystr \<Rightarrow> bool" where
  "startswith s [] = True"
| "startswith [] (p # ps) = False"
| "startswith (c # cs) (p # ps) = (c = p \<and> startswith cs ps)"

fun contains :: "pystr \<Rightarrow> pystr \<Rightarrow> bool" where
  "contains [] p = (p = [])"
| "contains (c # cs) p = (startswith (c # cs) p \<or> contains cs p)"

section \<open>Exceptions\<close>

text \<open>
  The exceptions the modelled code can meet. \<open>BrowserError\<close> stands for whatever the
  browser collaborator raises, \<open>OSError\<close> for a failed file operation.
\<close>

datatype error =
  ValueError | TypeError | OverflowError | ZeroDivisionError | IndexError | BrowserError | OSError

section \<open>Python floats\<close>

text \<open>
  A Python \<open>float\<close> is an IEEE 754 binary64 number. A finite one is modelled by
  its exact rational value; the two zeros are one value \<open>Finite 0\<close> (the modelled code
  never formats a zero whose sign it has not fixed, and division by either zero raises).
  Every operation computes the exact result and rounds it to the nearest double, ties to
  even, as the hardware does.
\<close>

datatype pyfloat = Finite rat | PosInf | NegInf | NaN

definition pow2 :: "int \<Rightarrow> rat" where
  "pow2 e = (if 0 \<le> e then 2 ^ nat e else 1 / 2 ^ nat (- e))"

definition pow10 :: "int \<Rightarrow> rat" where
  "pow10 e = (if 0 \<le> e then 10 ^ nat e else 1 / 10 ^ nat (- e))"

text \<open>\<open>int.bit_length\<close> of a natural number.\<close>

fun bit_length :: "nat \<Rightarrow> nat" where
  "bit_length n = (if n = 0 then 0 else Suc (bit_length (n div 2)))"

declare bit_length.simps [simp del]

text \<open>The exponent \<open>e\<close> with \<open>2 ^ e \<le> q < 2 ^ (e + 1)\<close>, for \<open>q > 0\<close>.\<close>

definition floor_log2 :: "rat \<Rightarrow> int" where
  "floor_log2 q =
     (let (a, b) = quotient_of q;
          d = int (bit_length (nat a)) - int (bit_length (nat b))
      in if pow2 d \<le> q then d else d - 1)"

definition round_half_even :: "rat \<Rightarrow> int" where
  "round_half_even q =
     (let f = \<lfloor>q\<rfloor>; d = q - of_int f
      in if d < 1 / 2 then f
         else if 1 / 2 < d then f + 1
         else if even f then f else f + 1)"

text \<open>
  Rounding an exact value to binary64: 53 significant bits, exponents from \<open>-1022\<close>
  (below it the spacing stays \<open>2 ^ -1074\<close>: subnormal numbers), overflow to an
  infinity from \<open>2 ^ 1024\<close> on.
\<close>

definition round_double :: "rat \<Rightarrow> pyfloat" where
  "round_double q =
     (if q = 0 then Finite 0
      else
        let a = \<bar>q\<bar>;
            e = max (floor_log2 a) (- 1022);
            u = pow2 (e - 52);
            r = of_int (round_half_even (a / u)) * u
        in if pow2 1024 \<le> r then (if 0 < q then PosInf else NegInf)
           else Finite (if 0 < q then r else - r))"

subsection \<open>Arithmetic and comparison\<close>

definition fmul :: "pyfloat \<Rightarrow> pyfloat \<Rightarrow> pyfloat" where
  "fmul x y =
     (case (x, y) of
        (NaN, _) \<Rightarrow> NaN
      | (_, NaN) \<Rightarrow> NaN
      | (Finite a, Finite b) \<Rightarrow> round_double (a * b)
      | (Finite a, PosInf) \<Rightarrow> (if a = 0 then NaN else if 0 < a then PosInf else NegInf)
      | (Finite a, NegInf) \<Rightarrow> (if a = 0 then NaN else if 0 < a then NegInf else PosInf)
      | (PosInf, Finite b) \<Rightarrow> (if b = 0 then NaN else if 0 < b then PosInf else NegInf)
      | (NegInf, Finite b) \<Rightarrow> (if b = 0 then NaN else if 0 < b then NegInf else PosInf)
      | (PosInf, PosInf) \<Rightarrow> PosInf
      | (NegInf, NegInf) \<Rightarrow> PosInf
      | (PosInf, NegInf) \<Rightarrow> NegInf
      | (NegInf, PosInf) \<Rightarrow> NegInf)"

definition fsub :: "pyfloat \<Rightarrow> pyfloat \<Rightarrow> pyfloat" where
  "fsub x y =
     (case (x, y) of
        (NaN, _) \<Rightarrow> NaN
      | (_, NaN) \<Rightarrow> NaN
      | (Finite a, Finite b) \<Rightarrow> round_double (a - b)
      | (Finite a, PosInf) \<Rightarrow> NegInf
      | (Finite a, NegInf) \<Rightarrow> PosInf
      | (PosInf, PosInf) \<Rightarrow> NaN
      | (NegInf, NegInf) \<Rightarrow> NaN
      | (PosInf, _) \<Rightarrow> PosInf
      | (NegInf, _) \<Rightarrow> NegInf)"

text \<open>Float division raises \<open>ZeroDivisionError\<close> on a zero divisor, whatever the dividend.\<close>

definition fdiv :: "pyfloat \<Rightarrow> pyfloat \<Rightarrow> error + pyfloat" where
  "fdiv x y =
     (if y = Finite 0 then Inl ZeroDivisionError
      else Inr
        (case (x, y) of
           (NaN, _) \<Rightarrow> NaN
         | (_, NaN) \<Rightarrow> NaN
         | (Finite a, Finite b) \<Rightarrow> round_double (a / b)
         | (Finite a, _) \<Rightarrow> Finite 0
         | (PosInf, Finite b) \<Rightarrow> (if 0 < b then PosInf else NegInf)
         | (NegInf, Finite b) \<Rightarrow> (if 0 < b then NegInf else PosInf)
         | (_, _) \<Rightarrow> NaN))"

definition fle :: "pyfloat \<Rightarrow> pyfloat \<Rightarrow> bool" where
  "fle x y =
     (case (x, y) of
        (NaN, _) \<Rightarrow> False
      | (_, NaN) \<Rightarrow> False
      | (Finite a, Finite b) \<Rightarrow> a \<le> b
      | (NegInf, _) \<Rightarrow> True
      | (_, PosInf) \<Rightarrow> True
      | (_, _) \<Rightarrow> False)"

definition flt :: "pyfloat \<Rightarrow> pyfloat \<Rightarrow> bool" where
  "flt x y =
     (case (x, y) of
        (NaN, _) \<Rightarrow> False
      | (_, NaN) \<Rightarrow> False
      | (Finite a, Finite b) \<Rightarrow> a < b
      | (NegInf, NegInf) \<Rightarrow> False
      | (NegInf, _) \<Rightarrow> True
      | (PosInf, PosInf) \<Rightarrow> False
      | (_, PosInf) \<Rightarrow> True
      | (_, _) \<Rightarrow> False)"

text \<open>Truth value of a float: everything but zero.\<close>

definition float_truthy :: "pyfloat \<Rightarrow> bool" where
  "float_truthy x \<longleftrightarrow> x \<noteq> Finite 0"

text \<open>\<open>math.ceil\<close> returns an \<open>int\<close> and raises on an infinity or a NaN.\<close>

definition math_ceil :: "pyfloat \<Rightarrow> error + int" where
  "math_ceil x =
     (case x of
        Finite q \<Rightarrow> Inr \<lceil>q\<rceil>
      | NaN \<Rightarrow> Inl ValueError
      | _ \<Rightarrow> Inl OverflowError)"

text \<open>\<open>a / b\<close> on two \<open>int\<close>s: the correctly rounded quotient, as a float.\<close>

definition int_truediv :: "int \<Rightarrow> int \<Rightarrow> error + pyfloat" where
  "int_truediv a b =
     (if b = 0 then Inl ZeroDivisionError
      else (case round_double (of_int a / of_int b) of
              Finite q \<Rightarrow> Inr (Finite q)
            | _ \<Rightarrow> Inl OverflowError))"

subsection \<open>Formatting\<close>

text \<open>Decimal digits of a natural number (\<open>str\<close> of a non-negative \<open>int\<close>).\<close>

fun nat_str :: "nat \<Rightarrow> pystr" where
  "nat_str n = (if n < 10 then [48 + n] else nat_str (n div 10) @ [48 + n mod 10])"

declare nat_str.simps [simp del]

text \<open>
  The format specifications \<open>.1f\<close> (\<open>signed = False\<close>) and \<open>+.1f\<close>
  (\<open>signed = True\<close>): the exact value rounded to one decimal, ties to even.
\<close>

definition format_1f :: "bool \<Rightarrow> pyfloat \<Rightarrow> pystr" where
  "format_1f signed x =
     (case x of
        Finite q \<Rightarrow>
          (let n = nat (round_half_even (\<bar>q\<bar> * 10))
           in (if q < 0 then [45] else if signed then [43] else [])
              @ nat_str (n div 10) @ [46] @ nat_str (n mod 10))
      | PosInf \<Rightarrow> (if signed then [43] else []) @ ascii ''inf''
      | NegInf \<Rightarrow> ascii ''-inf''
      | NaN \<Rightarrow> (if signed then [43] else []) @ ascii ''nan'')"

subsection \<open>Parsing: \<open>float(s)\<close> on a string\<close>

text \<open>
  \<open>float\<close> first maps the string to ASCII: an ASCII character stays, any other
  white space becomes a blank, any other decimal digit its ASCII digit, and the text is
  cut at the first other character, which is replaced by a question mark.
\<close>

fun to_ascii_decimal :: "pystr \<Rightarrow> pystr" where
  "to_ascii_decimal [] = []"
| "to_ascii_decimal (c # cs) =
     (if c < 127 then c # to_ascii_decimal cs
      else if is_space c then 32 # to_ascii_decimal cs
      else (case decimal_value c of
              Some d \<Rightarrow> (48 + d) # to_ascii_decimal cs
            | None \<Rightarrow> [63]))"

text \<open>Then white space of the C locale is stripped at both ends.\<close>

definition is_c_space :: "nat \<Rightarrow> bool" where
  "is_c_space c \<longleftrightarrow> (9 \<le> c \<and> c \<le> 13) \<or> c = 32"

definition strip_c_space :: "pystr \<Rightarrow> pystr" where
  "strip_c_space s = rev (dropWhile is_c_space (rev (dropWhile is_c_space s)))"

definition is_ascii_digit :: "nat \<Rightarrow> bool" where
  "is_ascii_digit c \<longleftrightarrow> 48 \<le> c \<and> c \<le> 57"

text \<open>
  Underscores may stand between two digits only; they are removed. \<open>prev\<close> is the
  character before the one looked at (0 at the start).
\<close>

fun remove_underscores :: "nat \<Rightarrow> pystr \<Rightarrow> pystr option" where
  "remove_underscores prev [] = (if prev = 95 then None else Some [])"
| "remove_underscores prev (c # cs) =
     (if c = 95 then (if is_ascii_digit prev then remove_underscores c cs else None)
      else if prev = 95 \<and> \<not> is_ascii_digit c then None
      else map_option ((#) c) (remove_underscores c cs))"

definition digits_value :: "pystr \<Rightarrow> int" where
  "digits_value ds = foldl (\<lambda>a c. 10 * a + (int c - 48)) 0 ds"

text \<open>An optional sign: whether it is a minus, and the rest.\<close>

definition parse_sign :: "pystr \<Rightarrow> bool \<times> pystr" where
  "parse_sign s =
     (case s of
        [] \<Rightarrow> (False, s)
      | c # r \<Rightarrow> if c = 45 then (True, r) else if c = 43 then (False, r) else (False, s))"

text \<open>The exponent part, up to the end of the text: nothing, or \<open>e\<close>, a sign, digits.\<close>

definition parse_exponent :: "pystr \<Rightarrow> int option" where
  "parse_exponent s =
     (case s of
        [] \<Rightarrow> Some 0
      | c # r \<Rightarrow>
          if c = 101 \<or> c = 69 then
            (let (neg, ds) = parse_sign r
             in if ds \<noteq> [] \<and> list_all is_ascii_digit ds
                then Some (if neg then - digits_value ds else digits_value ds)
                else None)
          else None)"

text \<open>
  A decimal number that fills the whole text: sign, digits with an optional point (at
  least one digit), optional exponent. The result is its exact value.
\<close>

definition strtod :: "pystr \<Rightarrow> rat option" where
  "strtod s =
     (let (neg, s1) = parse_sign s;
          ip = takeWhile is_ascii_digit s1;
          s2 = dropWhile is_ascii_digit s1;
          (fp, s3) = (case s2 of
                        [] \<Rightarrow> ([], s2)
                      | c # r \<Rightarrow> if c = 46 then (takeWhile is_ascii_digit r, dropWhile is_ascii_digit r)
                                 else ([], s2))
      in if ip = [] \<and> fp = [] then None
         else (case parse_exponent s3 of
                 None \<Rightarrow> None
               | Some e \<Rightarrow>
                   Some ((if neg then - 1 else 1) * of_int (digits_value (ip @ fp))
                         * pow10 (e - int (length fp)))))"

definition ascii_lower :: "nat \<Rightarrow> nat" where
  "ascii_lower c = (if 65 \<le> c \<and> c \<le> 90 then c + 32 else c)"

text \<open>The words \<open>inf\<close>, \<open>infinity\<close> and \<open>nan\<close>, in any case, with an optional sign.\<close>

definition parse_inf_or_nan :: "pystr \<Rightarrow> pyfloat option" where
  "parse_inf_or_nan s =
     (let (neg, r) = parse_sign s; w = map ascii_lower r
      in if w = ascii ''inf'' \<or> w = ascii ''infinity'' then Some (if neg then NegInf else PosInf)
         else if w = ascii ''nan'' then Some NaN
         else None)"

definition float_of_str :: "pystr \<Rightarrow> error + pyfloat" where
  "float_of_str s =
     (let t = strip_c_space (to_ascii_decimal s)
      in if t = [] then Inl ValueError
         else (case (if 95 \<in> set t then remove_underscores 0 t else Some t) of
                 None \<Rightarrow> Inl ValueError
               | Some u \<Rightarrow>
                   (case strtod u of
                      Some q \<Rightarrow> Inr (round_double q)
                    | None \<Rightarrow>
                        (case parse_inf_or_nan u of
                           Some f \<Rightarrow> Inr f
                         | None \<Rightarrow> Inl ValueError))))"

section \<open>The regular expressions of the scraper\<close>

text \<open>
  Each pattern of the source has one capturing group. A pattern is modelled by its match
  attempt at the start of a text: the text of the group and the text after the match,
  or \<open>None\<close>. The attempt follows the backtracking matcher of \<open>re\<close>: a greedy
  item takes all it can, a lazy one as little as it can, alternatives are tried in order.
\<close>

type_synonym matcher = "pystr \<Rightarrow> (pystr \<times> pystr) option"

text \<open>
  The group \<open>(\d+(?:\.\d+)?)\<close> at the start of the text: the longest run of digits,
  and a point followed by the longest run of digits if there is one. In every pattern
  below the group ends the pattern or is followed by an item that starts with neither a
  digit nor a point after a digit run, so no shorter choice of the group can match where
  the longest one does not.
\<close>

definition decimal_at :: matcher where
  "decimal_at s =
     (let ip = takeWhile is_digit s; r = dropWhile is_digit s
      in if ip = [] then None
         else (case r of
                 [] \<Rightarrow> Some (ip, r)
               | c # r' \<Rightarrow>
                   if c = 46 \<and> takeWhile is_digit r' \<noteq> []
                   then Some (ip @ 46 # takeWhile is_digit r', dropWhile is_digit r')
                   else Some (ip, r)))"

text \<open>\<open>re.search(pattern, s).group(1)\<close>: the first position where the attempt succeeds.\<close>

fun re_search :: "matcher \<Rightarrow> pystr \<Rightarrow> pystr option" where
  "re_search m [] = map_option fst (m [])"
| "re_search m (c # cs) =
     (case m (c # cs) of
        Some (g, r) \<Rightarrow> Some g
      | None \<Rightarrow> re_search m cs)"

text \<open>
  \<open>re.findall(pattern, s)\<close>: the groups of the successive matches, each search
  starting where the match before it ended. (A match that consumed nothing would move
  on by one character; the patterns here all consume a digit.)
\<close>

function findall :: "matcher \<Rightarrow> pystr \<Rightarrow> pystr list" where
  "findall m [] = []"
| "findall m (c # cs) =
     (case m (c # cs) of
        Some (g, r) \<Rightarrow> g # findall m (if length r \<le> length cs then r else cs)
      | None \<Rightarrow> findall m cs)"
  by pat_completeness auto
termination
  by (relation "measure (\<lambda>(m, s). length s)") auto

text \<open>An alternation of literal texts followed by the rest of the pattern.\<close>

fun match_alternatives :: "pystr list \<Rightarrow> matcher \<Rightarrow> matcher" where
  "match_alternatives [] rest s = None"
| "match_alternatives (a # as) rest s =
     (case (if startswith s a then rest (drop (length a) s) else None) of
        Some r \<Rightarrow> Some r
      | None \<Rightarrow> match_alternatives as rest s)"

text \<open>\<open>.{0,n}?\<close> and then the group: as few characters other than a newline as possible.\<close>

fun lazy_any :: "nat \<Rightarrow> matcher" where
  "lazy_any n s =
     (case decimal_at s of
        Some r \<Rightarrow> Some r
      | None \<Rightarrow>
          (case n of
             0 \<Rightarrow> None
           | Suc k \<Rightarrow>
               (case s of
                  [] \<Rightarrow> None
                | c # cs \<Rightarrow> if c = 10 then None else lazy_any k cs)))"

text \<open>\<open>\D*?\<close> and then the group: as few non-digits as possible.\<close>

fun lazy_non_digits :: matcher where
  "lazy_non_digits [] = None"
| "lazy_non_digits (c # cs) =
     (case decimal_at (c # cs) of
        Some r \<Rightarrow> Some r
      | None \<Rightarrow> if is_digit c then None else lazy_non_digits cs)"

text \<open>The code points of the characters the patterns name.\<close>

definition yen_sign :: nat where "yen_sign = 165"
definition fullwidth_yen_sign :: nat where "fullwidth_yen_sign = 65509"

definition word_jiage :: pystr where "word_jiage = [20215, 26684]"
definition word_cuxiaojia :: pystr where "word_cuxiaojia = [20419, 38144, 20215]"
definition word_zhehoujia :: pystr where "word_zhehoujia = [25240, 21518, 20215]"
definition word_jiaqian :: pystr where "word_jiaqian = [20215, 38065]"
definition word_yuan :: pystr where "word_yuan = [20803]"
definition word_kuaiqian :: pystr where "word_kuaiqian = [22359, 38065]"

text \<open>\<open>(\d+(?:\.\d+)?)\<close>, the pattern of strategies 1 and 2 and of the validation.\<close>

definition pattern_decimal :: matcher where
  "pattern_decimal = decimal_at"

text \<open>
  A run of yen signs (U+00A5 or U+FFE5) and white space, as long as possible, and then
  the group: the pattern applied to the text of a parent element.
\<close>

definition pattern_parent :: matcher where
  "pattern_parent s =
     decimal_at (dropWhile (\<lambda>c. c = yen_sign \<or> c = fullwidth_yen_sign \<or> is_space c) s)"

text \<open>The four patterns of strategy 3, in the order of \<open>price_patterns\<close>.\<close>

definition pattern_yen :: matcher where
  \<comment> \<open>a yen sign, white space, the group\<close>
  "pattern_yen s =
     (case s of
        [] \<Rightarrow> None
      | c # r \<Rightarrow>
          if c = yen_sign \<or> c = fullwidth_yen_sign then decimal_at (dropWhile is_space r)
          else None)"

definition pattern_label :: matcher where
  \<comment> \<open>one of three labels, at most ten characters, the group\<close>
  "pattern_label = match_alternatives [word_jiage, word_cuxiaojia, word_zhehoujia] (lazy_any 10)"

definition pattern_unit :: matcher where
  \<comment> \<open>the group, white space, one of two units\<close>
  "pattern_unit s =
     (case decimal_at s of
        None \<Rightarrow> None
      | Some (g, r) \<Rightarrow>
          (let r1 = dropWhile is_space r
           in if startswith r1 word_yuan then Some (g, drop (length word_yuan) r1)
              else if startswith r1 word_kuaiqian then Some (g, drop (length word_kuaiqian) r1)
              else None))"

definition pattern_label_any :: matcher where
  \<comment> \<open>one of two labels, non-digits, the group\<close>
  "pattern_label_any = match_alternatives [word_jiage, word_jiaqian] lazy_non_digits"

definition price_patterns :: "matcher list" where
  "price_patterns = [pattern_yen, pattern_label, pattern_unit, pattern_label_any]"

section \<open>TaobaoScraper: the loaded page and the three strategies\<close>

text \<open>
  The browser is an external collaborator. A loaded page is modelled by what it answers
  to the calls the scraper makes: the elements found by each of the four XPath selectors
  of strategy 1 (numbered from 0, in the order of \<open>price_selectors\<close>), each with its
  own text and the text of its parent; the value returned by the script of strategy 2
  (a string or \<open>null\<close>); the text of the body element; and whether writing the page
  source to \<open>debug/last_page.html\<close> raises. Any call may raise.
\<close>

record element =
  ele_text :: pystr
  ele_parent_text :: "error + pystr option"

record page =
  eles :: "nat \<Rightarrow> error + element list"
  run_js :: "error + pystr option"
  body_text :: "error + pystr"
  html_dump :: "error option"

text \<open>The messages returned when no price is found.\<close>

definition msg_browser_not_initialised :: pystr where
  "msg_browser_not_initialised = [27983, 35272, 22120, 26410, 21021, 22987, 21270]"

definition msg_price_not_found :: pystr where
  "msg_price_not_found = [26410, 25214, 21040, 20215, 26684]"

subsection \<open>Strategy 1: elements found by XPath\<close>

text \<open>The first loop over the elements of one selector: the element's own text.\<close>

fun first_text_price :: "element list \<Rightarrow> pystr option" where
  "first_text_price [] = None"
| "first_text_price (e # es) =
     (case re_search pattern_decimal (ele_text e) of
        Some g \<Rightarrow> Some g
      | None \<Rightarrow> first_text_price es)"

text \<open>The second loop: the text of the parent, where there is one.\<close>

fun first_parent_price :: "element list \<Rightarrow> error + pystr option" where
  "first_parent_price [] = Inr None"
| "first_parent_price (e # es) =
     (case ele_parent_text e of
        Inl err \<Rightarrow> Inl err
      | Inr None \<Rightarrow> first_parent_price es
      | Inr (Some t) \<Rightarrow>
          (case re_search pattern_parent t of
             Some g \<Rightarrow> Inr (Some g)
           | None \<Rightarrow> first_parent_price es))"

fun strategy_1_selectors :: "page \<Rightarrow> nat list \<Rightarrow> error + pystr option" where
  "strategy_1_selectors pg [] = Inr None"
| "strategy_1_selectors pg (sel # sels) =
     (case eles pg sel of
        Inl err \<Rightarrow> Inl err
      | Inr elements \<Rightarrow>
          if elements \<noteq> [] then
            (case first_text_price elements of
               Some g \<Rightarrow> Inr (Some g)
             | None \<Rightarrow>
                 (case first_parent_price elements of
                    Inl err \<Rightarrow> Inl err
                  | Inr (Some g) \<Rightarrow> Inr (Some g)
                  | Inr None \<Rightarrow> strategy_1_selectors pg sels))
          else strategy_1_selectors pg sels)"

definition extract_price_strategy_1 :: "page \<Rightarrow> error + pystr option" where
  "extract_price_strategy_1 pg = strategy_1_selectors pg [0, 1, 2, 3]"

subsection \<open>Strategy 2: the in-page script\<close>

definition extract_price_strategy_2 :: "page \<Rightarrow> error + pystr option" where
  "extract_price_strategy_2 pg =
     (case run_js pg of
        Inl err \<Rightarrow> Inl err
      | Inr None \<Rightarrow> Inr None
      | Inr (Some price_info) \<Rightarrow>
          if price_info \<noteq> [] then
            (case re_search pattern_decimal price_info of
               Some g \<Rightarrow> Inr (Some g)
             | None \<Rightarrow> Inr None)
          else Inr None)"

subsection \<open>Strategy 3: patterns over the page text\<close>

text \<open>
  The list comprehension \<open>[p for p in matches if float(p) > 0 and float(p) < 100000]\<close>.
  A match is kept with its float value; an infinity or a NaN fails one of the two
  comparisons. \<open>float\<close> raising ends the comprehension.
\<close>

fun valid_prices :: "pystr list \<Rightarrow> error + (pystr \<times> rat) list" where
  "valid_prices [] = Inr []"
| "valid_prices (p # ps) =
     (case float_of_str p of
        Inl err \<Rightarrow> Inl err
      | Inr f \<Rightarrow>
          (case valid_prices ps of
             Inl err \<Rightarrow> Inl err
           | Inr vs \<Rightarrow>
               (case f of
                  Finite v \<Rightarrow> if 0 < v \<and> v < 100000 then Inr ((p, v) # vs) else Inr vs
                | _ \<Rightarrow> Inr vs)))"

text \<open>
  The loop over \<open>price_patterns\<close>. \<open>sorted(valid_prices, key=float)[0]\<close> is the head
  of the stable sort by value.
\<close>

fun scan_patterns :: "matcher list \<Rightarrow> pystr \<Rightarrow> error + pystr option" where
  "scan_patterns [] page_text = Inr None"
| "scan_patterns (pattern # patterns) page_text =
     (let matches = findall pattern page_text
      in if matches \<noteq> [] then
           (case valid_prices matches of
              Inl err \<Rightarrow> Inl err
            | Inr vs \<Rightarrow>
                if vs \<noteq> [] then Inr (Some (fst (hd (sort_key snd vs))))
                else scan_patterns patterns page_text)
         else scan_patterns patterns page_text)"

definition strategy_3_text :: "pystr \<Rightarrow> error + pystr option" where
  "strategy_3_text page_text = scan_patterns price_patterns page_text"

definition extract_price_strategy_3 :: "page \<Rightarrow> error + pystr option" where
  "extract_price_strategy_3 pg =
     (case body_text pg of
        Inl err \<Rightarrow> Inl err
      | Inr page_text \<Rightarrow> strategy_3_text page_text)"

subsection \<open>The strategy chain\<close>

text \<open>
  The check applied to what a strategy returned: the pattern \<open>(\d+(?:\.\d+)?)\<close> is
  searched anywhere in it and \<open>float\<close> is called on the match. \<open>Inr True\<close> is the
  \<open>break\<close>, \<open>Inr False\<close> the branch that resets \<open>price\<close>; \<open>float\<close> raising
  \<open>ValueError\<close> resets \<open>price\<close> too, any other exception goes to the outer handler.
\<close>

definition validate_price :: "pystr \<Rightarrow> error + bool" where
  "validate_price p =
     (case re_search pattern_decimal p of
        None \<Rightarrow> Inr False
      | Some g \<Rightarrow>
          (case float_of_str g of
             Inr f \<Rightarrow> Inr True
           | Inl err \<Rightarrow> if err = ValueError then Inr False else Inl err))"

text \<open>
  One turn of the loop of \<open>extract_price\<close>, given the value of \<open>price\<close> before
  it and what the strategy did: either the loop is left with a validated price, or it
  goes on with a new value of \<open>price\<close>. A strategy that raises leaves \<open>price\<close>
  as it was; a strategy that returns an empty value leaves that value in \<open>price\<close>.
\<close>

datatype loop_step = Break pystr | Continue "pystr option"

definition strategy_step :: "pystr option \<Rightarrow> error + pystr option \<Rightarrow> loop_step" where
  "strategy_step price outcome =
     (case outcome of
        Inl err \<Rightarrow> Continue price
      | Inr None \<Rightarrow> Continue None
      | Inr (Some p) \<Rightarrow>
          if p \<noteq> [] then
            (case validate_price p of
               Inr True \<Rightarrow> Break p
             | Inr False \<Rightarrow> Continue None
             | Inl err \<Rightarrow> Continue (Some p))
          else Continue (Some p))"

text \<open>
  The loop over the strategies. \<open>i\<close> is the number of strategies already tried. The
  result is the list of the numbers (from 1) of the strategies that were called, and the
  final value of \<open>price\<close>.
\<close>

fun try_strategies ::
  "(page \<Rightarrow> error + pystr option) list \<Rightarrow> page \<Rightarrow> pystr option \<Rightarrow> nat \<Rightarrow> nat list \<times> pystr option" where
  "try_strategies [] pg price i = ([], price)"
| "try_strategies (strategy # strategies) pg price i =
     (case strategy_step price (strategy pg) of
        Break p \<Rightarrow> ([Suc i], Some p)
      | Continue price' \<Rightarrow>
          (let (called, final) = try_strategies strategies pg price' (Suc i)
           in (Suc i # called, final)))"

definition extraction_strategies :: "(page \<Rightarrow> error + pystr option) list" where
  "extraction_strategies =
     [extract_price_strategy_1, extract_price_strategy_2, extract_price_strategy_3]"

text \<open>
  \<open>extract_price\<close>. \<open>scraper_page\<close> is \<open>self.page\<close>. With \<open>save_debug_info\<close>
  the page source is written before the loop, outside any handler; the screenshot after
  the loop is inside one and has no part in the result, so it is left out (and with it
  the arguments \<open>product_name\<close> and \<open>product_id\<close>, which only name the file).
\<close>

definition extract_price :: "bool \<Rightarrow> page option \<Rightarrow> error + pystr \<times> bool" where
  "extract_price save_debug_info scraper_page =
     (case scraper_page of
        None \<Rightarrow> Inr (msg_browser_not_initialised, False)
      | Some pg \<Rightarrow>
          (case (if save_debug_info then html_dump pg else None) of
             Some err \<Rightarrow> Inl err
           | None \<Rightarrow>
               (case snd (try_strategies extraction_strategies pg None 0) of
                  None \<Rightarrow> Inr (msg_price_not_found, False)
                | Some price \<Rightarrow>
                    if price \<noteq> [] then Inr (price, True)
                    else Inr (msg_price_not_found, False))))"

text \<open>The strategies \<open>extract_price\<close> calls on a page, in call order.\<close>

definition strategies_called :: "page \<Rightarrow> nat list" where
  "strategies_called pg = fst (try_strategies extraction_strategies pg None 0)"

section \<open>PriceHistoryManager\<close>

text \<open>
  One value of the \<open>price_history\<close> dictionary:
  \<open>{"name": ..., "price": ..., "last_update": ...}\<close>.
\<close>

record price_record =
  name :: pystr
  price :: pystr
  last_update :: pystr

type_synonym price_history = "pystr \<rightharpoonup> price_record"

text \<open>The dictionary \<open>result\<close> returned by \<open>check_price_change\<close>.\<close>

record check_result =
  is_new_item :: bool
  has_changed :: bool
  old_price :: "pystr option"

text \<open>
  \<open>PriceHistoryManager.check_price_change\<close>. The dictionary the method mutates
  is passed in and returned; \<open>timestamp\<close> is the reading of the clock
  (\<open>datetime.now().strftime(...)\<close>) the call takes.
\<close>

definition check_price_change ::
  "pystr \<Rightarrow> pystr \<Rightarrow> pystr \<Rightarrow> pystr \<Rightarrow> price_history \<Rightarrow> check_result \<times> price_history" where
  "check_price_change timestamp item_id product_name current_price h =
     (case h item_id of
        None \<Rightarrow>
          (\<lparr>is_new_item = True, has_changed = False, old_price = None\<rparr>,
           h(item_id \<mapsto> \<lparr>name = product_name, price = current_price, last_update = timestamp\<rparr>))
      | Some r \<Rightarrow>
          (let r1 = r\<lparr>name := product_name\<rparr>;
               old = price r1
           in if old \<noteq> current_price
              then (\<lparr>is_new_item = False, has_changed = True, old_price = Some old\<rparr>,
                    h(item_id \<mapsto> r1\<lparr>price := current_price, last_update := timestamp\<rparr>))
              else (\<lparr>is_new_item = False, has_changed = False, old_price = Some old\<rparr>,
                    h(item_id \<mapsto> r1))))"

text \<open>
  A run of calls with the same arguments, one clock reading per call; the results are
  returned in call order together with the final dictionary.
\<close>

fun check_repeatedly ::
  "pystr list \<Rightarrow> pystr \<Rightarrow> pystr \<Rightarrow> pystr \<Rightarrow> price_history \<Rightarrow> check_result list \<times> price_history" where
  "check_repeatedly [] i n p h = ([], h)"
| "check_repeatedly (t # ts) i n p h =
     (let (r, h1) = check_price_change t i n p h;
          (rs, h2) = check_repeatedly ts i n p h1
      in (r # rs, h2))"

text \<open>A history with one record, used as a concrete input below.\<close>
definition history_example :: price_history where
  "history_example = Map.empty(ascii ''123'' \<mapsto>
     \<lparr>name = ascii ''pen'', price = ascii ''10.0'', last_update = ascii ''2024-01-01 00:00:00''\<rparr>)"

section \<open>SimplePushReporter: the suggested price\<close>

text \<open>
  The section \<open>price_calculation\<close> of the configuration. The values are read from a
  JSON file; they are taken to be floats, as in \<open>DEFAULT_CONFIG\<close>
  (1.5, 1.2 and 2.0, each the nearest double).
\<close>

record price_calculation =
  low_price_multiplier :: pyfloat
  high_price_multiplier :: pyfloat
  low_price_threshold :: pyfloat

definition default_config :: price_calculation where
  "default_config =
     \<lparr>low_price_multiplier = round_double (15 / 10),
      high_price_multiplier = round_double (12 / 10),
      low_price_threshold = round_double 2\<rparr>"

definition msg_cannot_calculate :: pystr where
  "msg_cannot_calculate = [26080, 27861, 35745, 31639]"

text \<open>The body of the \<open>try\<close> block: the formatted suggestion, or the exception raised.\<close>

definition suggested_price_body :: "price_calculation \<Rightarrow> pystr \<Rightarrow> error + pystr" where
  "suggested_price_body cfg current_price =
     (let price_text = takeWhile (\<lambda>c. c \<noteq> 40) current_price
      in case float_of_str price_text of
           Inl err \<Rightarrow> Inl err
         | Inr price_float \<Rightarrow>
             (let multiplier =
                    (if fle price_float (low_price_threshold cfg) then low_price_multiplier cfg
                     else high_price_multiplier cfg)
              in case math_ceil (fmul (fmul price_float multiplier) (Finite 10)) of
                   Inl err \<Rightarrow> Inl err
                 | Inr n \<Rightarrow>
                     (case int_truediv n 10 of
                        Inl err \<Rightarrow> Inl err
                      | Inr suggested \<Rightarrow> Inr (format_1f False suggested))))"

text \<open>\<open>calculate_suggested_price\<close>: any exception of the body gives the fixed message.\<close>

definition calculate_suggested_price :: "price_calculation \<Rightarrow> pystr \<Rightarrow> pystr" where
  "calculate_suggested_price cfg current_price =
     (case suggested_price_body cfg current_price of
        Inl err \<Rightarrow> msg_cannot_calculate
      | Inr s \<Rightarrow> s)"

section \<open>PriceMonitor\<close>

subsection \<open>\<open>extract_item_id\<close>\<close>

text \<open>
  \<open>urlparse\<close> and \<open>parse_qs\<close> belong to the standard library; \<open>extract_item_id\<close>
  reads the fields \<open>netloc\<close> and \<open>query\<close> of the first and looks \<open>id\<close> up in the
  dictionary (name to list of values) the second returns. The two functions are a
  parameter of the model, so that what is proved holds for whatever they compute;
  \<open>urlparse\<close> may raise (it does on an unbalanced bracket in the network location).
\<close>

record url_parts =
  netloc :: pystr
  query :: pystr

record url_lib =
  urlparse :: "pystr \<Rightarrow> error + url_parts"
  parse_qs :: "pystr \<Rightarrow> (pystr \<rightharpoonup> pystr list)"

definition extract_item_id :: "url_lib \<Rightarrow> pystr \<Rightarrow> error + pystr option" where
  "extract_item_id lib url =
     (case urlparse lib url of
        Inl err \<Rightarrow> Inl err
      | Inr parsed \<Rightarrow>
          if contains (netloc parsed) (ascii ''taobao.com'') then
            (case parse_qs lib (query parsed) (ascii ''id'') of
               None \<Rightarrow> Inr None
             | Some [] \<Rightarrow> Inl IndexError
             | Some (v # vs) \<Rightarrow> Inr (Some v))
          else Inr None)"

subsection \<open>The rate of change\<close>

definition msg_unknown :: pystr where
  "msg_unknown = [26410, 30693]"

text \<open>
  The \<open>try\<close> block that computes \<open>change_rate_str\<close> from \<open>result["old_price"]\<close> and
  \<open>current_price\<close>: the exception raised, or the text.
\<close>

definition change_rate_body :: "pystr option \<Rightarrow> pystr \<Rightarrow> error + pystr" where
  "change_rate_body old current_price =
     (case old of
        None \<Rightarrow> Inl TypeError
      | Some old_text \<Rightarrow>
          (case float_of_str old_text of
             Inl err \<Rightarrow> Inl err
           | Inr old_price_value \<Rightarrow>
               (case float_of_str current_price of
                  Inl err \<Rightarrow> Inl err
                | Inr new_price_value \<Rightarrow>
                    (case fdiv (fsub new_price_value old_price_value) old_price_value of
                       Inl err \<Rightarrow> Inl err
                     | Inr ratio \<Rightarrow>
                         (let change_rate = fmul ratio (Finite 100)
                          in if float_truthy change_rate
                             then Inr (format_1f True change_rate @ [37])
                             else Inr (ascii ''0%''))))))"

definition change_rate_str :: "pystr option \<Rightarrow> pystr \<Rightarrow> pystr" where
  "change_rate_str old current_price =
     (case change_rate_body old current_price of
        Inl err \<Rightarrow> msg_unknown
      | Inr s \<Rightarrow> s)"

subsection \<open>One product of the monitoring pass\<close>

text \<open>An entry of \<open>price_changes\<close>.\<close>

record change_event =
  ev_name :: pystr
  ev_id :: pystr
  ev_old_price :: "pystr option"
  ev_new_price :: pystr
  ev_change_rate :: pystr

text \<open>
  What the monitor holds across products: the history dictionary and the list
  \<open>price_changes\<close>.
\<close>

record monitor_state =
  history :: price_history
  price_changes :: "change_event list"

text \<open>
  What the world answers while one product is processed: whether \<open>get_page\<close> loaded
  the page, the scraper's page afterwards, the clock, and whether appending to the log
  file raises.
\<close>

record visit =
  page_loaded :: bool
  scraper_page :: "page option"
  clock :: pystr
  log_write :: "error option"

text \<open>How the processing of one product ends; \<open>Failed\<close> is the per-product handler.\<close>

datatype outcome = SkippedNoId | LoadFailed | ExtractFailed | Recorded | Failed error

text \<open>
  The body of the loop of \<open>monitor_prices\<close> for one product \<open>(name, url)\<close>.
  \<open>extract_item_id\<close> is called outside the per-product handler: if it raises, the
  exception leaves the loop (\<open>Inl\<close>). Pauses and console output are left out.
\<close>

definition process_product ::
  "url_lib \<Rightarrow> pystr \<times> pystr \<Rightarrow> visit \<Rightarrow> monitor_state \<Rightarrow> error + outcome \<times> monitor_state" where
  "process_product lib product v st =
     (let product_name = fst product; product_url = snd product
      in case extract_item_id lib product_url of
           Inl err \<Rightarrow> Inl err
         | Inr None \<Rightarrow> Inr (SkippedNoId, st)
         | Inr (Some product_id) \<Rightarrow>
             if product_id = [] then Inr (SkippedNoId, st)
             else if \<not> page_loaded v then Inr (LoadFailed, st)
             else
               (case extract_price True (scraper_page v) of
                  Inl err \<Rightarrow> Inr (Failed err, st)
                | Inr (current_price, success) \<Rightarrow>
                    if \<not> success then Inr (ExtractFailed, st)
                    else
                      (let (result, h) = check_price_change (clock v) product_id product_name
                                           current_price (history st);
                           st1 = st\<lparr>history := h\<rparr>
                       in if is_new_item result then Inr (Recorded, st1)
                          else if has_changed result then
                            (let rate = change_rate_str (old_price result) current_price
                             in case log_write v of
                                  Some err \<Rightarrow> Inr (Failed err, st1)
                                | None \<Rightarrow>
                                    Inr (Recorded,
                                         st1\<lparr>price_changes := price_changes st1 @
                                           [\<lparr>ev_name = product_name, ev_id = product_id,
                                             ev_old_price = old_price result,
                                             ev_new_price = current_price,
                                             ev_change_rate = rate\<rparr>]\<rparr>))
                          else Inr (Recorded, st1))))"

section \<open>Properties of the price history\<close>

text \<open>
  Claim C3. For an id already in the history whose stored price string differs from the
  supplied one, \<open>check_price_change\<close> stores the supplied price and the call's
  timestamp (and the supplied name), sets \<open>has_changed\<close> and returns the previous
  price as \<open>old_price\<close>. The comparison is equality of strings: the witness shows
  stored \<open>10.0\<close> against \<open>12.0\<close>, and also against \<open>10.00\<close>, which is
  the same number and still a change.
\<close>

theorem check_price_change_known_changed:
  assumes "h i = Some r" and "price r \<noteq> p"
  shows "check_price_change t i n p h =
           (\<lparr>is_new_item = False, has_changed = True, old_price = Some (price r)\<rparr>,
            h(i \<mapsto> \<lparr>name = n, price = p, last_update = t\<rparr>))"
  using assms by (cases r) (simp add: check_price_change_def)

theorem check_price_change_known_changed_witness:
  "check_price_change (ascii ''2024-02-02 08:00:00'') (ascii ''123'') (ascii ''pen'') (ascii ''12.0'')
      history_example =
     (\<lparr>is_new_item = False, has_changed = True, old_price = Some (ascii ''10.0'')\<rparr>,
      history_example(ascii ''123'' \<mapsto>
        \<lparr>name = ascii ''pen'', price = ascii ''12.0'', last_update = ascii ''2024-02-02 08:00:00''\<rparr>))
   \<and> fst (check_price_change (ascii ''2024-02-02 08:00:00'') (ascii ''123'') (ascii ''pen'') (ascii ''10.00'')
      history_example) = \<lparr>is_new_item = False, has_changed = True, old_price = Some (ascii ''10.0'')\<rparr>"
proof -
  let ?r = "\<lparr>name = ascii ''pen'', price = ascii ''10.0'', last_update = ascii ''2024-01-01 00:00:00''\<rparr>"
  have h: "history_example (ascii ''123'') = Some ?r"
    by (simp add: history_example_def)
  have d1: "price ?r \<noteq> ascii ''12.0''" by (simp add: ascii_def)
  have d2: "price ?r \<noteq> ascii ''10.00''" by (simp add: ascii_def)
  show ?thesis
    using check_price_change_known_changed [where h = history_example and r = ?r, OF h d1]
      check_price_change_known_changed [where h = history_example and r = ?r, OF h d2]
    by simp
qed

text \<open>
  Claim C4. For an id that is not in the history, \<open>check_price_change\<close> creates the
  record from the given name, price and timestamp and returns \<open>is_new_item = True\<close>,
  \<open>has_changed = False\<close>, \<open>old_price = None\<close>.
\<close>

theorem check_price_change_new_item:
  assumes "h i = None"
  shows "check_price_change t i n p h =
           (\<lparr>is_new_item = True, has_changed = False, old_price = None\<rparr>,
            h(i \<mapsto> \<lparr>name = n, price = p, last_update = t\<rparr>))"
  using assms by (simp add: check_price_change_def)

theorem check_price_change_new_item_witness:
  "check_price_change (ascii ''2024-02-02 08:00:00'') (ascii ''456'') (ascii ''ink'') (ascii ''3.5'')
      history_example =
     (\<lparr>is_new_item = True, has_changed = False, old_price = None\<rparr>,
      history_example(ascii ''456'' \<mapsto>
        \<lparr>name = ascii ''ink'', price = ascii ''3.5'', last_update = ascii ''2024-02-02 08:00:00''\<rparr>))"
proof -
  have h: "history_example (ascii ''456'') = None"
    by (simp add: history_example_def ascii_def)
  show ?thesis using check_price_change_new_item [where h = history_example, OF h] by simp
qed

text \<open>
  After any call the record of the id holds the supplied price and name; a further call
  with the same arguments finds nothing to change.
\<close>

lemma check_price_change_stores_price:
  "\<exists>r. snd (check_price_change t i n p h) i = Some r \<and> price r = p \<and> name r = n"
  by (auto simp: check_price_change_def Let_def split: option.splits)

lemma check_price_change_same_again:
  assumes "h i = Some r" and "price r = p" and "name r = n"
  shows "check_price_change t i n p h =
           (\<lparr>is_new_item = False, has_changed = False, old_price = Some p\<rparr>, h)"
proof -
  have "r\<lparr>name := n\<rparr> = r" using assms(3) by simp
  moreover have "h(i \<mapsto> r) = h" using assms(1) by (simp add: map_upd_triv)
  ultimately show ?thesis using assms(1,2) by (simp add: check_price_change_def)
qed

lemma check_repeatedly_fixed:
  assumes "h i = Some r" and "price r = p" and "name r = n"
  shows "check_repeatedly ts i n p h =
           (replicate (length ts) \<lparr>is_new_item = False, has_changed = False, old_price = Some p\<rparr>, h)"
  by (induction ts) (simp_all add: check_price_change_same_again [where h = h and r = r, OF assms])

text \<open>
  Claim C5. After a first call with \<open>(id, name, price)\<close>, every further call with
  the same arguments, however many and at whatever clock readings, returns
  \<open>has_changed = False\<close> (and \<open>is_new_item = False\<close>) and leaves the dictionary as
  the first call left it. The case \<open>ts = [t2]\<close> is the second of two calls in succession.
\<close>

theorem check_price_change_idempotent:
  "check_repeatedly ts i n p (snd (check_price_change t i n p h)) =
     (replicate (length ts) \<lparr>is_new_item = False, has_changed = False, old_price = Some p\<rparr>,
      snd (check_price_change t i n p h))"
proof -
  obtain r where "snd (check_price_change t i n p h) i = Some r" "price r = p" "name r = n"
    using check_price_change_stores_price by blast
  then show ?thesis by (rule check_repeatedly_fixed)
qed

theorem check_price_change_idempotent_witness:
  "check_repeatedly [ascii ''2024-02-02 09:00:00'', ascii ''2024-02-02 10:00:00'']
      (ascii ''123'') (ascii ''pen'') (ascii ''12.0'')
      (snd (check_price_change (ascii ''2024-02-02 08:00:00'') (ascii ''123'') (ascii ''pen'')
              (ascii ''12.0'') history_example)) =
     ([\<lparr>is_new_item = False, has_changed = False, old_price = Some (ascii ''12.0'')\<rparr>,
       \<lparr>is_new_item = False, has_changed = False, old_price = Some (ascii ''12.0'')\<rparr>],
      snd (check_price_change (ascii ''2024-02-02 08:00:00'') (ascii ''123'') (ascii ''pen'')
              (ascii ''12.0'') history_example))"
  using check_price_change_idempotent
    [of "[ascii ''2024-02-02 09:00:00'', ascii ''2024-02-02 10:00:00'']" "ascii ''123''"
        "ascii ''pen''" "ascii ''12.0''" "ascii ''2024-02-02 08:00:00''" history_example]
  by simp

text \<open>
  Claim C6, as the code has it. For an id already in the history and a supplied price
  equal to the stored string, both flags are false and the record keeps its price and
  its timestamp; its name is overwritten with the supplied name (the method does so for
  every known id before it compares prices). The dictionary is therefore unchanged
  exactly when the supplied name is the stored one. The counterexample is a call with the
  stored price and another name: the record's name changes, so the claim's
  \<open>no field of the record changes, including name\<close> does not hold.
\<close>

theorem check_price_change_same_price:
  assumes "h i = Some r" and "price r = p"
  shows "check_price_change t i n p h =
           (\<lparr>is_new_item = False, has_changed = False, old_price = Some p\<rparr>,
            h(i \<mapsto> r\<lparr>name := n\<rparr>))"
  using assms by (simp add: check_price_change_def)

theorem check_price_change_same_price_counterexample:
  "history_example (ascii ''123'') =
      Some \<lparr>name = ascii ''pen'', price = ascii ''10.0'', last_update = ascii ''2024-01-01 00:00:00''\<rparr>
   \<and> snd (check_price_change (ascii ''2024-02-02 08:00:00'') (ascii ''123'') (ascii ''pencil'')
           (ascii ''10.0'') history_example) (ascii ''123'') =
      Some \<lparr>name = ascii ''pencil'', price = ascii ''10.0'', last_update = ascii ''2024-01-01 00:00:00''\<rparr>
   \<and> snd (check_price_change (ascii ''2024-02-02 08:00:00'') (ascii ''123'') (ascii ''pencil'')
           (ascii ''10.0'') history_example) \<noteq> history_example"
proof -
  have a: "history_example (ascii ''123'') =
      Some \<lparr>name = ascii ''pen'', price = ascii ''10.0'', last_update = ascii ''2024-01-01 00:00:00''\<rparr>"
    by (simp add: history_example_def)
  have b: "snd (check_price_change (ascii ''2024-02-02 08:00:00'') (ascii ''123'') (ascii ''pencil'')
           (ascii ''10.0'') history_example) (ascii ''123'') =
      Some \<lparr>name = ascii ''pencil'', price = ascii ''10.0'', last_update = ascii ''2024-01-01 00:00:00''\<rparr>"
    by (simp add: check_price_change_def a Let_def)
  have c: "ascii ''pencil'' \<noteq> ascii ''pen''" by (simp add: ascii_def)
  have "snd (check_price_change (ascii ''2024-02-02 08:00:00'') (ascii ''123'') (ascii ''pencil'')
           (ascii ''10.0'') history_example) (ascii ''123'') \<noteq> history_example (ascii ''123'')"
    unfolding a b using c by simp
  then have d: "snd (check_price_change (ascii ''2024-02-02 08:00:00'') (ascii ''123'') (ascii ''pencil'')
           (ascii ''10.0'') history_example) \<noteq> history_example"
    by auto
  from a b d show ?thesis by simp
qed

theorem check_price_change_same_price_witness:
  "check_price_change (ascii ''2024-02-02 08:00:00'') (ascii ''123'') (ascii ''pencil'') (ascii ''10.0'')
      history_example =
     (\<lparr>is_new_item = False, has_changed = False, old_price = Some (ascii ''10.0'')\<rparr>,
      history_example(ascii ''123'' \<mapsto>
        \<lparr>name = ascii ''pencil'', price = ascii ''10.0'', last_update = ascii ''2024-01-01 00:00:00''\<rparr>))"
proof -
  let ?r = "\<lparr>name = ascii ''pen'', price = ascii ''10.0'', last_update = ascii ''2024-01-01 00:00:00''\<rparr>"
  have h: "history_example (ascii ''123'') = Some ?r"
    by (simp add: history_example_def)
  have p: "price ?r = ascii ''10.0''" by simp
  show ?thesis using check_price_change_same_price [where h = history_example and r = ?r, OF h p] by simp
qed

end
